theory Spec2Isabelle
  imports Complex_Main "HOL-Library.AList" "HOL-Library.Product_Lexorder" "HOL-Library.Multiset"
begin

section \<open>Python values used by the scoring pipeline\<close>

text \<open>
  Python \<open>str\<close> values are modelled as \<open>string\<close>, a character being read as a code point
  below 256. Python floats are modelled as real numbers (exact arithmetic); integers that
  the code keeps as \<open>int\<close> stay \<open>int\<close> or \<open>nat\<close>. An exception that leaves a function is a
  value \<open>Inl e\<close> of the result.
\<close>

datatype py_error = TypeError

subsection \<open>\<open>str.lower\<close>, \<open>str.strip\<close>, the substring test \<open>in\<close>, \<open>str\<close> of a number\<close>

definition lower_char :: "char \<Rightarrow> char" where
  \<comment> \<open>\<open>A\<close>..\<open>Z\<close> and the Latin-1 capitals (192..222 without the multiplication sign 215)\<close>
  "lower_char c =
     (let n = (of_char c :: nat)
      in if (65 \<le> n \<and> n \<le> 90) \<or> (192 \<le> n \<and> n \<le> 222 \<and> n \<noteq> 215)
         then char_of (n + 32) else c)"

definition lower :: "string \<Rightarrow> string" where
  "lower s = map lower_char s"

definition is_space :: "char \<Rightarrow> bool" where
  \<comment> \<open>\<open>str.isspace\<close> below 256: 9..13, 28..32, 133 and 160\<close>
  "is_space c =
     (let n = (of_char c :: nat)
      in (9 \<le> n \<and> n \<le> 13) \<or> (28 \<le> n \<and> n \<le> 32) \<or> n = 133 \<or> n = 160)"

definition strip :: "string \<Rightarrow> string" where
  "strip s = rev (dropWhile is_space (rev (dropWhile is_space s)))"

definition startswith :: "string \<Rightarrow> string \<Rightarrow> bool" where
  "startswith s p = (take (length p) s = p)"

fun str_in :: "string \<Rightarrow> string \<Rightarrow> bool" where
  \<comment> \<open>\<open>str_in needle hay\<close> is Python's \<open>needle in hay\<close> on two strings\<close>
  "str_in needle [] = (needle = [])"
| "str_in needle (c # cs) = (startswith (c # cs) needle \<or> str_in needle cs)"

definition digit_char :: "nat \<Rightarrow> char" where
  "digit_char d = ''0123456789'' ! (d mod 10)"

fun str_nat :: "nat \<Rightarrow> string" where
  "str_nat n = (if n < 10 then [digit_char n] else str_nat (n div 10) @ [digit_char (n mod 10)])"

definition fmt_1f_twelfths :: "nat \<Rightarrow> string" where
  \<comment> \<open>\<open>f"{m / 12.0:.1f}"\<close> for an integer \<open>m \<ge> 0\<close>: the tenths of \<open>m / 12\<close>, a tie (which
      is exactly representable: a multiple of 0.25) going to the even digit\<close>
  "fmt_1f_twelfths m =
     (let q = (m * 10) div 12; r = (m * 10) mod 12;
          t = (if r < 6 then q else if r > 6 then q + 1 else if even q then q else q + 1)
      in str_nat (t div 10) @ ''.'' @ str_nat (t mod 10))"

definition round_half_even :: "real \<Rightarrow> int" where
  "round_half_even x =
     (let f = \<lfloor>x\<rfloor>; d = x - of_int f
      in if d < 1 / 2 then f else if d > 1 / 2 then f + 1 else if even f then f else f + 1)"

definition round1 :: "real \<Rightarrow> real" where
  \<comment> \<open>\<open>round(x, 1)\<close>\<close>
  "round1 x = of_int (round_half_even (x * 10)) / 10"

subsection \<open>Dictionaries with string keys, in insertion order\<close>

definition dict_get :: "(string \<times> 'v) list \<Rightarrow> string \<Rightarrow> 'v \<Rightarrow> 'v" where
  \<comment> \<open>\<open>d.get(key, default)\<close>\<close>
  "dict_get d k dflt = (case map_of d k of None \<Rightarrow> dflt | Some v \<Rightarrow> v)"

definition dict_set :: "(string \<times> 'v) list \<Rightarrow> string \<Rightarrow> 'v \<Rightarrow> (string \<times> 'v) list" where
  \<comment> \<open>\<open>d[key] = v\<close>: a present key keeps its place, a new key goes last\<close>
  "dict_set d k v = AList.update k v d"

section \<open>Experience and chronology checks (\<open>experience_checker.py\<close>)\<close>

text \<open>
  A \<open>datetime\<close> without time zone: year, month, and the position inside the month (day and
  time of day), compared field by field as Python does.
\<close>

record datetime =
  year :: int
  month :: int
  rest :: nat

definition dt_key :: "datetime \<Rightarrow> int \<times> int \<times> nat" where
  "dt_key d = (year d, month d, rest d)"

text \<open>A work-history entry is a dict; an absent key is \<open>None\<close> and read with \<open>.get(key, '')\<close>.\<close>

record job =
  company :: "string option"
  title :: "string option"
  start_date :: "string option"
  end_date :: "string option"

definition get_str :: "string option \<Rightarrow> string" where
  "get_str v = (case v of None \<Rightarrow> [] | Some s \<Rightarrow> s)"

text \<open>
  \<open>dateutil.parser.parse(date_str, fuzzy=True)\<close> is a library outside the repository: the
  parameter \<open>P\<close> gives its answer, \<open>None\<close> where it raises (the bare \<open>except\<close> of
  \<open>_parse_date\<close> turns that into \<open>None\<close>). \<open>now\<close> is the reading of \<open>datetime.now()\<close>, one
  reading for the whole check.
\<close>

definition parse_date :: "(string \<Rightarrow> datetime option) \<Rightarrow> datetime \<Rightarrow> string \<Rightarrow> datetime option" where
  "parse_date P now date_str =
     (if date_str = [] \<or> lower date_str = ''present'' then Some now else P date_str)"

definition months_between :: "datetime \<Rightarrow> datetime \<Rightarrow> int" where
  \<comment> \<open>\<open>(b.year - a.year) * 12 + (b.month - a.month)\<close>\<close>
  "months_between a b = (year b - year a) * 12 + (month b - month a)"

fun total_months_loop ::
  "(string \<Rightarrow> datetime option) \<Rightarrow> datetime \<Rightarrow> job list \<Rightarrow> int \<Rightarrow> int" where
  "total_months_loop P now [] total_months = total_months"
| "total_months_loop P now (j # js) total_months =
     (case (parse_date P now (get_str (start_date j)), parse_date P now (get_str (end_date j))) of
        (Some s, Some e) \<Rightarrow> total_months_loop P now js (total_months + max 0 (months_between s e))
      | _ \<Rightarrow> total_months_loop P now js total_months)"

definition calculate_total_months :: "(string \<Rightarrow> datetime option) \<Rightarrow> datetime \<Rightarrow> job list \<Rightarrow> int" where
  "calculate_total_months P now work_history = total_months_loop P now work_history 0"

definition calculate_total_years :: "(string \<Rightarrow> datetime option) \<Rightarrow> datetime \<Rightarrow> job list \<Rightarrow> real" where
  "calculate_total_years P now work_history = of_int (calculate_total_months P now work_history) / 12"

text \<open>
  \<open>sorted(xs, key=f)\<close>: the keys are computed once, the sort is stable. With two elements or
  more every key takes part in a comparison, and comparing \<open>None\<close> with anything raises
  \<open>TypeError\<close>.
\<close>

definition py_sorted :: "('a \<Rightarrow> 'k::linorder option) \<Rightarrow> 'a list \<Rightarrow> py_error + 'a list" where
  "py_sorted f xs =
     (if length xs < 2 then Inr xs
      else case those (map f xs) of
             None \<Rightarrow> Inl TypeError
           | Some ks \<Rightarrow> Inr (map snd (sort_key fst (zip ks xs))))"

definition start_key :: "(string \<Rightarrow> datetime option) \<Rightarrow> datetime \<Rightarrow> job \<Rightarrow> (int \<times> int \<times> nat) option" where
  "start_key P now x = map_option dt_key (parse_date P now (get_str (start_date x)))"

definition gap_step ::
  "(string \<Rightarrow> datetime option) \<Rightarrow> datetime \<Rightarrow> job list \<Rightarrow> nat \<Rightarrow> int list \<Rightarrow> int list" where
  \<comment> \<open>the body of \<open>for i in range(len(sorted_history) - 1)\<close>\<close>
  "gap_step P now sorted_history i gaps =
     (case (parse_date P now (get_str (end_date (sorted_history ! i))),
            parse_date P now (get_str (start_date (sorted_history ! (i + 1))))) of
        (Some end_d, Some next_start) \<Rightarrow>
          (let gap_months = months_between end_d next_start
           in if gap_months > 6 then gaps @ [gap_months] else gaps)
      | _ \<Rightarrow> gaps)"

definition find_gaps :: "(string \<Rightarrow> datetime option) \<Rightarrow> datetime \<Rightarrow> job list \<Rightarrow> int list" where
  "find_gaps P now sorted_history =
     fold (gap_step P now sorted_history) [0 ..< length sorted_history - 1] []"

definition check_employment_gaps ::
  "(string \<Rightarrow> datetime option) \<Rightarrow> datetime \<Rightarrow> job list \<Rightarrow> py_error + (real \<times> string list)" where
  "check_employment_gaps P now work_history =
     (if length work_history < 2 then Inr (10, [])
      else case py_sorted (start_key P now) work_history of
             Inl e \<Rightarrow> Inl e
           | Inr sorted_history \<Rightarrow>
               (let gaps = find_gaps P now sorted_history
                in if gaps \<noteq> []
                   then Inr (max 0 (10 - min 10 (of_nat (length gaps) * 3)),
                             [str_nat (length gaps) @ '' employment gap(s) > 6 months detected''])
                   else Inr (max 0 10, [])))"


definition add_title :: "(string \<times> string list) list \<Rightarrow> job \<Rightarrow> (string \<times> string list) list" where
  \<comment> \<open>the body of the loop that fills the dict \<open>companies\<close>\<close>
  "add_title companies j =
     (let company_v = get_str (company j); title_v = get_str (title j)
      in if company_v \<noteq> []
         then (let companies' = (if map_of companies company_v = None
                                 then dict_set companies company_v [] else companies)
               in dict_set companies' company_v (dict_get companies' company_v [] @ [title_v]))
         else companies)"

definition count_promotions :: "job list \<Rightarrow> nat" where
  \<comment> \<open>\<open>sum(1 for titles in companies.values() if len(titles) > 1)\<close>\<close>
  "count_promotions work_history =
     length (filter (\<lambda>kv. length (snd kv) > 1) (fold (\<lambda>j c. add_title c j) work_history []))"

definition seniority_keywords :: "string list" where
  "seniority_keywords = [''junior'', ''senior'', ''lead'', ''principal'', ''manager'', ''director'']"

definition has_progression :: "job list \<Rightarrow> bool" where
  \<comment> \<open>\<open>any(any(kw in t for kw in seniority_keywords) for t in titles)\<close>\<close>
  "has_progression work_history =
     list_ex (\<lambda>t. list_ex (\<lambda>kw. str_in kw t) seniority_keywords)
       (map (\<lambda>j. lower (get_str (title j))) work_history)"

definition check_career_progression ::
  "(string \<Rightarrow> datetime option) \<Rightarrow> datetime \<Rightarrow> job list \<Rightarrow> real \<times> string list" where
  "check_career_progression P now work_history =
     (if work_history = [] then (0, [''No work experience listed''])
      else
        let total_months = calculate_total_months P now work_history;
            total_years = calculate_total_years P now work_history;
            (score1, feedback1) =
              (if total_years < 2
               then (5 - 2, [''Limited experience ('' @ fmt_1f_twelfths (nat total_months) @ '' years)''])
               else (5, []));
            promotions = count_promotions work_history;
            (score2, feedback2) =
              (if promotions > 0
               then (score1 + 2, feedback1 @
                       [''Career progression: '' @ str_nat promotions @ '' promotion(s) detected''])
               else (score1, feedback1));
            (score3, feedback3) =
              (if \<not> has_progression work_history \<and> length work_history > 2
               then (score2 - 1, feedback2 @ [''No clear seniority progression in titles''])
               else (score2, feedback2))
        in (min 10 (max 0 score3), feedback3))"

section \<open>The pattern-based variant (\<open>ml_core/experience_parser.py\<close>)\<close>

definition any_in :: "string list \<Rightarrow> string \<Rightarrow> bool" where
  \<comment> \<open>\<open>any(k in title for k in keywords)\<close>\<close>
  "any_in keywords t = list_ex (\<lambda>k. str_in k t) keywords"

definition title_level :: "job \<Rightarrow> nat" where
  "title_level blk =
     (let t = lower (get_str (title blk))
      in if any_in [''senior'', ''lead'', ''principal'', ''architect'', ''manager'', ''director'', ''head''] t then 3
         else if any_in [''developer'', ''engineer'', ''analyst'', ''consultant''] t then 2
         else if any_in [''junior'', ''associate'', ''intern'', ''trainee'', ''entry''] t then 1
         else 2)"

definition detect_progression :: "job list \<Rightarrow> real" where
  "detect_progression experience_blocks =
     (if length experience_blocks < 2 then 0
      else
        let levels = map title_level experience_blocks
        in if last levels > hd levels then 80
           else if last levels = hd levels \<and> fold max levels (hd levels) > hd levels then 60
           else if list_all (\<lambda>l. l = hd levels) levels then 40
           else 20)"


section \<open>Job-description alignment (\<open>jd_alignment_checker.py\<close>)\<close>

record skill_details =
  matched :: "string list"
  missing :: "string list"
  matched_technical :: "string list"
  matched_soft :: "string list"
  missing_technical :: "string list"
  missing_soft :: "string list"

definition empty_skill_details :: skill_details where
  "empty_skill_details =
     \<lparr>matched = [], missing = [], matched_technical = [], matched_soft = [],
      missing_technical = [], missing_soft = []\<rparr>"

text \<open>
  The body of the \<open>try\<close> block of \<open>check_keyword_alignment\<close> runs scikit-learn's TF-IDF
  vectorizer; the parameter \<open>tfidf_body\<close> stands for it and answers \<open>None\<close> where it raises.
  Everything that can raise there stands before \<open>skill_details\<close> and \<open>feedback\<close> are
  assigned, so the \<open>except\<close> branch returns them as initialised.
\<close>

definition check_keyword_alignment ::
  "(string \<Rightarrow> string \<Rightarrow> (real \<times> string list \<times> skill_details) option) \<Rightarrow>
   string \<Rightarrow> string \<Rightarrow> real \<times> string list \<times> skill_details" where
  "check_keyword_alignment tfidf_body resume_text jd_text =
     (if jd_text = [] \<or> resume_text = [] then (15, [], empty_skill_details)
      else case tfidf_body resume_text jd_text of
             Some r \<Rightarrow> r
           | None \<Rightarrow> (7.5, [], empty_skill_details))"

text \<open>
  \<open>check_semantic_fit\<close>: the two guards, then the embedding model (\<open>_kb_enhanced_semantic_fit\<close>
  or \<open>_direct_semantic_fit\<close>), the parameter \<open>semantic_body\<close>, \<open>None\<close> where it raises.
\<close>

definition check_semantic_fit ::
  "(string \<Rightarrow> string \<Rightarrow> (real \<times> string list) option) \<Rightarrow> string \<Rightarrow> string \<Rightarrow> real \<times> string list" where
  "check_semantic_fit semantic_body resume_text jd_text =
     (if resume_text = [] then (0, [''Invalid resume text''])
      else if jd_text = [] then (20, [])
      else case semantic_body resume_text jd_text of
             Some r \<Rightarrow> r
           | None \<Rightarrow> (5, [''Semantic analysis failed'']))"

section \<open>The orchestrator (\<open>perfect_analysis_engine.py\<close>)\<close>

definition max_points :: "(string \<times> real) list" where
  "max_points =
     [(''file_layout'', 20), (''font_consistency'', 10), (''readability'', 10),
      (''professional_language'', 10), (''date_consistency'', 5), (''employment_gaps'', 10),
      (''career_progression'', 5), (''keyword_alignment'', 15), (''skill_context'', 5),
      (''semantic_fit'', 20), (''quantified_impact'', 10), (''online_presence'', 5)]"

definition weights :: "(string \<times> real) list" where
  "weights =
     [(''file_layout'', 0.10), (''font_consistency'', 0.05), (''readability'', 0.05),
      (''professional_language'', 0.05), (''date_consistency'', 0.025), (''employment_gaps'', 0.05),
      (''career_progression'', 0.025), (''keyword_alignment'', 0.15), (''skill_context'', 0.05),
      (''semantic_fit'', 0.25), (''quantified_impact'', 0.15), (''online_presence'', 0.05)]"

fun weighted_loop :: "(string \<times> real) list \<Rightarrow> real \<Rightarrow> real" where
  \<comment> \<open>\<open>for key, raw_score in scores.items()\<close>\<close>
  "weighted_loop [] final = final"
| "weighted_loop ((key, raw_score) # items) final =
     (let max_val = dict_get max_points key 10;
          normalized = (raw_score / max_val) * 100
      in weighted_loop items (final + normalized * dict_get weights key 0))"

definition calculate_weighted_score :: "(string \<times> real) list \<Rightarrow> real" where
  "calculate_weighted_score scores = min 100 (max 0 (weighted_loop scores 0))"

definition calculate_grade :: "real \<Rightarrow> string" where
  "calculate_grade s =
     (if s \<ge> 90 then ''A'' else if s \<ge> 80 then ''B'' else if s \<ge> 70 then ''C''
      else if s \<ge> 60 then ''D'' else ''F'')"

text \<open>
  The checks that read files or call libraries (PyMuPDF, python-docx, textstat, spaCy,
  regular expressions, scikit-learn, the embedding model, dateutil, the clock) are the
  fields of \<open>env\<close>, named as the methods they stand for.
\<close>

record env =
  check_file_layout :: "string \<Rightarrow> real \<times> string list"
  check_font_consistency :: "string \<Rightarrow> real \<times> string list"
  check_readability :: "string \<Rightarrow> real \<times> string list"
  check_professional_language :: "string \<Rightarrow> string list \<Rightarrow> real \<times> string list"
  check_date_consistency :: "job list \<Rightarrow> real \<times> string list"
  keyword_tfidf :: "string \<Rightarrow> string \<Rightarrow> (real \<times> string list \<times> skill_details) option"
  check_skill_context :: "string list \<Rightarrow> string \<Rightarrow> real \<times> string list"
  semantic_model :: "string \<Rightarrow> string \<Rightarrow> (real \<times> string list) option"
  check_quantified_achievements :: "string \<Rightarrow> real \<times> string list"
  quantify_impact :: "string \<Rightarrow> real"
  check_online_presence :: "string \<Rightarrow> real \<times> string list"
  dateutil_parse :: "string \<Rightarrow> datetime option"
  clock :: datetime

record parsed_data =
  skills :: "string list"
  work_history :: "job list"
  experience_text :: string
  contact_text :: string
  experience_bullets :: "string list"

record analysis_result =
  final_score :: real
  grade :: string
  breakdown :: "(string \<times> real) list"
  feedback :: "string list"
  total_checks :: nat
  skill_match_details :: "skill_details option"

definition warning_sign :: string where
  \<comment> \<open>U+26A0 U+FE0F, written as its UTF-8 bytes\<close>
  "warning_sign = [CHR 0xE2, CHR 0x9A, CHR 0xA0, CHR 0xEF, CHR 0xB8, CHR 0x8F]"

definition critical_message :: string where
  "critical_message = warning_sign @ '' CRITICAL: Resume does not match job role requirements''"

definition warning_message :: string where
  "warning_message = warning_sign @ '' WARNING: Weak job-role alignment detected''"

definition apply_mismatch_penalty ::
  "string option \<Rightarrow> (string \<times> real) list \<Rightarrow> real \<Rightarrow> string list \<Rightarrow> real \<times> string list" where
  \<comment> \<open>the \<open>if\<close>/\<open>elif\<close> after the weighted score; \<open>jd_text\<close> is \<open>Optional[str]\<close>\<close>
  "apply_mismatch_penalty jd_text scores final all_feedback =
     (if get_str jd_text \<noteq> [] \<and> dict_get scores ''semantic_fit'' 0 < 4
      then (min final 30, critical_message # all_feedback)
      else if get_str jd_text \<noteq> [] \<and> dict_get scores ''semantic_fit'' 0 < 7
      then (min final 50, warning_message # all_feedback)
      else (final, all_feedback))"

definition analyze ::
  "env \<Rightarrow> string \<Rightarrow> string \<Rightarrow> string option \<Rightarrow> parsed_data \<Rightarrow> py_error + analysis_result" where
  "analyze X resume_file_path resume_text jd_text pd =
     (let (layout_score, layout_feedback) = check_file_layout X resume_file_path;
          scores = dict_set [] ''file_layout'' layout_score;
          all_feedback = layout_feedback;
          (font_score, font_feedback) = check_font_consistency X resume_file_path;
          scores = dict_set scores ''font_consistency'' font_score;
          all_feedback = all_feedback @ font_feedback;
          (readability_score, readability_feedback) = check_readability X resume_text;
          scores = dict_set scores ''readability'' readability_score;
          all_feedback = all_feedback @ readability_feedback;
          (language_score, language_feedback) =
             check_professional_language X resume_text (experience_bullets pd);
          scores = dict_set scores ''professional_language'' language_score;
          all_feedback = all_feedback @ language_feedback;
          (date_score, date_feedback) = check_date_consistency X (work_history pd);
          scores = dict_set scores ''date_consistency'' date_score;
          all_feedback = all_feedback @ date_feedback
      in case check_employment_gaps (dateutil_parse X) (clock X) (work_history pd) of
           Inl e \<Rightarrow> Inl e
         | Inr (gaps_score, gaps_feedback) \<Rightarrow>
     (let scores = dict_set scores ''employment_gaps'' gaps_score;
          all_feedback = all_feedback @ gaps_feedback;
          (progression_score, progression_feedback) =
             check_career_progression (dateutil_parse X) (clock X) (work_history pd);
          scores = dict_set scores ''career_progression'' progression_score;
          all_feedback = all_feedback @ progression_feedback;
          (keyword_score, keyword_feedback, skill_details_v) =
             check_keyword_alignment (keyword_tfidf X) resume_text (get_str jd_text);
          scores = dict_set scores ''keyword_alignment'' keyword_score;
          all_feedback = all_feedback @ keyword_feedback;
          (context_score, context_feedback) = check_skill_context X (skills pd) (experience_text pd);
          scores = dict_set scores ''skill_context'' context_score;
          all_feedback = all_feedback @ context_feedback;
          (semantic_score, semantic_feedback) =
             check_semantic_fit (semantic_model X) resume_text (get_str jd_text);
          scores = dict_set scores ''semantic_fit'' semantic_score;
          all_feedback = all_feedback @ semantic_feedback;
          (impact_score, impact_feedback) = check_quantified_achievements X (experience_text pd);
          enhanced_quantified_impact = quantify_impact X (experience_text pd);
          enhanced_career_progression = detect_progression (work_history pd);
          scores = dict_set scores ''quantified_impact'' (max impact_score (enhanced_quantified_impact / 10));
          scores = dict_set scores ''career_progression''
                     (max progression_score (enhanced_career_progression / 20));
          all_feedback = all_feedback @ impact_feedback;
          (presence_score, presence_feedback) = check_online_presence X (contact_text pd);
          scores = dict_set scores ''online_presence'' presence_score;
          all_feedback = all_feedback @ presence_feedback;
          final = calculate_weighted_score scores;
          (final, all_feedback) = apply_mismatch_penalty jd_text scores final all_feedback
      in Inr \<lparr>final_score = round1 final,
               grade = calculate_grade final,
               breakdown = scores,
               feedback = all_feedback,
               total_checks = length scores,
               skill_match_details = (if get_str jd_text \<noteq> [] then Some skill_details_v else None)\<rparr>))"


section \<open>Display scores and fusion with the model score\<close>

text \<open>
  \<open>AdaptiveScorer.enhance_analysis\<close> (\<open>ml_core/adaptive_scorer.py\<close>); its table of maximal
  points is the orchestrator's. The result's \<open>improvements\<close> are left out. The flag
  \<open>has_contact\<close> is \<open>parsed_data.get('email') and parsed_data.get('phone')\<close>.
\<close>

definition normalize_scores :: "(string \<times> real) list \<Rightarrow> (string \<times> real) list" where
  "normalize_scores raw_scores =
     map (\<lambda>(key, raw_score). (key, (raw_score / dict_get max_points key 10) * 100)) raw_scores"

definition apply_adaptive_boost :: "(string \<times> real) list \<Rightarrow> bool \<Rightarrow> (string \<times> real) list" where
  "apply_adaptive_boost normalized_scores has_contact =
     (if has_contact
      then dict_set normalized_scores ''online_presence''
             (min 100 (dict_get normalized_scores ''online_presence'' 0 + 5))
      else normalized_scores)"

record enhanced_result =
  e_final_score :: real
  e_grade :: string
  e_breakdown :: "(string \<times> real) list"
  e_feedback :: "string list"
  e_total_checks :: nat

definition enhance_analysis :: "analysis_result \<Rightarrow> bool \<Rightarrow> enhanced_result" where
  "enhance_analysis raw_analysis has_contact =
     (let normalized = normalize_scores (breakdown raw_analysis);
          boosted = apply_adaptive_boost normalized has_contact
      in \<lparr>e_final_score = round1 (final_score raw_analysis),
          e_grade = grade raw_analysis,
          e_breakdown = map (\<lambda>(k, v). (k, round1 v)) boosted,
          e_feedback = feedback raw_analysis,
          e_total_checks = total_checks raw_analysis\<rparr>)"

text \<open>
  The fusion step of \<open>MLEnhancedAnalyzer.analyze\<close> (\<open>ml_enhanced_analyzer.py\<close>). The answer
  of \<open>ml_scorer.ml_score\<close> is the parameter \<open>ml_result\<close>, \<open>None\<close> where it raises: then the
  rule-based result stays.
\<close>

definition fuse :: "analysis_result \<Rightarrow> enhanced_result \<Rightarrow> real \<Rightarrow> enhanced_result" where
  "fuse raw_analysis enhanced_analysis ml_score =
     (let rule_score = e_final_score enhanced_analysis;
          fused_score = 0.5 * rule_score + 0.5 * ml_score;
          formatting_penalty = max 0 ((100 - dict_get (breakdown raw_analysis) ''file_layout'' 50) / 10);
          fused_score = max (fused_score - min (0.1 * formatting_penalty) 10) 0
      in enhanced_analysis\<lparr>e_final_score := round1 fused_score,
                             e_grade := calculate_grade fused_score\<rparr>)"

definition ml_fusion ::
  "analysis_result \<Rightarrow> bool \<Rightarrow> (real \<times> string) option \<Rightarrow> enhanced_result" where
  "ml_fusion raw_analysis has_contact ml_result =
     (let enhanced_analysis = enhance_analysis raw_analysis has_contact
      in case ml_result of
           Some (ml_score, ml_explanation) \<Rightarrow> fuse raw_analysis enhanced_analysis ml_score
         | None \<Rightarrow> enhanced_analysis)"

section \<open>Skill matching (\<open>smart_skill_matcher.py\<close>)\<close>

definition EQUIVALENTS :: "(string \<times> string list) list" where
  "EQUIVALENTS =
     [(''sql'', [''t-sql'', ''sql server'', ''mysql'', ''postgresql'', ''plsql'']),
      (''power bi'', [''powerbi'', ''power bi desktop'', ''power bi service'', ''power bi dataflows'']),
      (''etl'', [''etl automation'', ''etl tools'', ''etl processes'', ''data integration'']),
      (''data modeling'', [''data modelling'', ''database modeling'', ''data model'']),
      (''data warehousing'', [''data warehouse'', ''dwh'', ''data mart'']),
      (''python'', [''python3'', ''python 3'', ''py'']),
      (''javascript'', [''js'', ''node.js'', ''nodejs'']),
      (''machine learning'', [''ml'', ''deep learning'', ''neural networks'']),
      (''aws'', [''amazon web services'', ''ec2'', ''s3'', ''lambda'']),
      (''azure'', [''microsoft azure'', ''azure cloud'']),
      (''docker'', [''containerization'', ''containers'']),
      (''kubernetes'', [''k8s'', ''container orchestration'']),
      (''tableau'', [''tableau desktop'', ''tableau server'']),
      (''excel'', [''microsoft excel'', ''ms excel'', ''spreadsheets'']),
      (''communication'', [''communication skills'', ''interpersonal skills'']),
      (''problem solving'', [''problem-solving'', ''analytical skills'', ''critical thinking''])]"

record kb_hit =
  label :: string
  score :: real

text \<open>
  The matcher's state: the two thresholds; the knowledge base, absent (\<open>None\<close>) or a search
  function \<open>search query top_k\<close> (with \<open>type_filter='skill'\<close>) that answers \<open>None\<close> where it
  raises; and \<open>ratio a b\<close>, difflib's \<open>SequenceMatcher(None, a, b).ratio()\<close>.
\<close>

record matcher =
  fuzzy_threshold :: real
  kb_threshold :: real
  kb :: "(string \<Rightarrow> nat \<Rightarrow> kb_hit list option) option"
  ratio :: "string \<Rightarrow> string \<Rightarrow> real"

definition normalize_skill :: "string \<Rightarrow> string" where
  "normalize_skill skill = strip (lower skill)"

fun kb_loop :: "(string \<Rightarrow> nat \<Rightarrow> kb_hit list option) \<Rightarrow> real \<Rightarrow> string \<Rightarrow> string \<Rightarrow> string list \<Rightarrow> bool" where
  \<comment> \<open>the loop over the resume skills inside the \<open>try\<close>; an exception ends it without a match\<close>
  "kb_loop search thr jd_skill jd_kb_skill [] = False"
| "kb_loop search thr jd_skill jd_kb_skill (resume_skill # others) =
     (case search resume_skill 1 of
        None \<Rightarrow> False
      | Some resume_results \<Rightarrow>
          (case resume_results of
             [] \<Rightarrow> kb_loop search thr jd_skill jd_kb_skill others
           | hit # _ \<Rightarrow>
               (let resume_kb_skill = lower (label hit)
                in if jd_kb_skill = resume_kb_skill \<and> score hit \<ge> thr then True
                   else if score hit \<ge> thr \<and>
                           (str_in jd_skill resume_kb_skill \<or> str_in resume_kb_skill jd_skill)
                   then True
                   else kb_loop search thr jd_skill jd_kb_skill others)))"

definition kb_match :: "matcher \<Rightarrow> string \<Rightarrow> string list \<Rightarrow> bool" where
  "kb_match M jd_skill resume_skills =
     (case kb M of
        None \<Rightarrow> False
      | Some search \<Rightarrow>
          (case search jd_skill 5 of
             None \<Rightarrow> False
           | Some [] \<Rightarrow> False
           | Some (hit # _) \<Rightarrow> kb_loop search (kb_threshold M) jd_skill (lower (label hit)) resume_skills))"

definition equivalents_match :: "string \<Rightarrow> string list \<Rightarrow> bool" where
  "equivalents_match jd_skill resume_skills =
     list_ex (\<lambda>(base_skill, variants).
        (jd_skill = base_skill \<or> jd_skill \<in> set variants) \<and>
        list_ex (\<lambda>resume_skill. resume_skill = base_skill \<or> resume_skill \<in> set variants) resume_skills)
       EQUIVALENTS"

definition is_match :: "matcher \<Rightarrow> string \<Rightarrow> string list \<Rightarrow> bool" where
  "is_match M jd_skill resume_skills =
     (if jd_skill \<in> set resume_skills then True
      else if list_ex (\<lambda>resume_skill. str_in jd_skill resume_skill \<or> str_in resume_skill jd_skill)
                resume_skills then True
      else if kb_match M jd_skill resume_skills then True
      else if equivalents_match jd_skill resume_skills then True
      else if list_ex (\<lambda>resume_skill. ratio M jd_skill resume_skill \<ge> fuzzy_threshold M) resume_skills
      then True
      else False)"

fun match_loop :: "matcher \<Rightarrow> string list \<Rightarrow> string list \<Rightarrow> string list \<times> string list \<Rightarrow> string list \<times> string list" where
  \<comment> \<open>\<open>for jd_skill in jd_skills\<close>, on the set \<open>matched\<close> and the list \<open>missing\<close>\<close>
  "match_loop M resume_normalized [] (matched_v, missing_v) = (matched_v, missing_v)"
| "match_loop M resume_normalized (jd_skill # others) (matched_v, missing_v) =
     (if is_match M (normalize_skill jd_skill) resume_normalized
      then match_loop M resume_normalized others (List.insert jd_skill matched_v, missing_v)
      else match_loop M resume_normalized others (matched_v, missing_v @ [jd_skill]))"

text \<open>
  \<open>list(matched)\<close> lists a set in an order Python leaves open; the model keeps the elements
  in the order \<open>List.insert\<close> gives.
\<close>

definition match_skills :: "matcher \<Rightarrow> string list \<Rightarrow> string list \<Rightarrow> string list \<times> string list \<times> real" where
  "match_skills M resume_skills jd_skills =
     (if jd_skills = [] then ([], [], 100)
      else
        let resume_normalized = map normalize_skill resume_skills;
            (matched_v, missing_v) = match_loop M resume_normalized jd_skills ([], []);
            match_pct = (of_nat (length matched_v) / of_nat (length jd_skills)) * 100
        in (matched_v, missing_v, match_pct))"


section \<open>The employment-gap rule as the specification words it\<close>





section \<open>Concrete inputs\<close>

text \<open>
  The answers of dateutil on the date strings of the examples (a string without a date
  makes it raise), and a clock reading.
\<close>

definition sample_dateutil :: "string \<Rightarrow> datetime option" where
  "sample_dateutil s =
     map_of [(''01/2015'', \<lparr>year = 2015, month = 1, rest = 0\<rparr>),
             (''01/2018'', \<lparr>year = 2018, month = 1, rest = 0\<rparr>),
             (''01/2019'', \<lparr>year = 2019, month = 1, rest = 0\<rparr>),
             (''03/2020'', \<lparr>year = 2020, month = 3, rest = 0\<rparr>),
             (''01/2021'', \<lparr>year = 2021, month = 1, rest = 0\<rparr>)] s"

definition sample_now :: datetime where
  "sample_now = \<lparr>year = 2024, month = 6, rest = 1\<rparr>"

definition mk_job :: "string \<Rightarrow> string \<Rightarrow> string \<Rightarrow> string \<Rightarrow> job" where
  "mk_job c t s e = \<lparr>company = Some c, title = Some t, start_date = Some s, end_date = Some e\<rparr>"


definition unparseable_history :: "job list" where
  "unparseable_history = [mk_job ''Acme'' ''Engineer'' ''unknown'' ''01/2019'',
                          mk_job ''Globex'' ''Engineer'' ''03/2020'' ''Present'']"

definition promoted_history :: "job list" where
  "promoted_history = [mk_job ''Acme'' ''Engineer'' ''01/2015'' ''01/2018'',
                       mk_job ''Acme'' ''Senior Engineer'' ''01/2018'' ''Present'']"

definition same_title_history :: "job list" where
  "same_title_history = [mk_job ''Acme'' ''Engineer'' ''01/2015'' ''01/2018'',
                         mk_job ''Acme'' ''Engineer'' ''01/2018'' ''01/2021'']"

definition one_job_history :: "job list" where
  "one_job_history = [mk_job ''Acme'' ''Senior Engineer'' ''01/2015'' ''Present'']"

text \<open>
  Collaborators that give every check outside the model its full score, and the semantic
  model the score \<open>sem\<close>.
\<close>

definition sample_env :: "real \<Rightarrow> env" where
  "sample_env sem =
     \<lparr>check_file_layout = (\<lambda>_. (20, [])),
      check_font_consistency = (\<lambda>_. (10, [])),
      check_readability = (\<lambda>_. (10, [])),
      check_professional_language = (\<lambda>_ _. (10, [])),
      check_date_consistency = (\<lambda>_. (5, [])),
      keyword_tfidf = (\<lambda>_ _. Some (15, [], empty_skill_details)),
      check_skill_context = (\<lambda>_ _. (5, [])),
      semantic_model = (\<lambda>_ _. Some (sem, [])),
      check_quantified_achievements = (\<lambda>_. (10, [])),
      quantify_impact = (\<lambda>_. 100),
      check_online_presence = (\<lambda>_. (5, [])),
      dateutil_parse = sample_dateutil,
      clock = sample_now\<rparr>"

definition sample_data :: "job list \<Rightarrow> parsed_data" where
  "sample_data jobs =
     \<lparr>skills = [''Python''], work_history = jobs, experience_text = ''Built services in Python'',
      contact_text = ''linkedin.com/in/x github.com/x'', experience_bullets = []\<rparr>"

definition sample_matcher :: matcher where
  \<comment> \<open>the default thresholds, no knowledge base; the fuzzy ratio is not reached in the examples\<close>
  "sample_matcher = \<lparr>fuzzy_threshold = 0.8, kb_threshold = 0.5, kb = None, ratio = (\<lambda>_ _. 0)\<rparr>"

definition bare_env :: env where
  \<comment> \<open>as \<open>sample_env 20\<close>, for a candidate without skills and without an experience section\<close>
  "bare_env =
     (sample_env 20)
       \<lparr>check_skill_context := (\<lambda>_ _. (0, [''No skills listed''])),
        check_quantified_achievements := (\<lambda>_. (0, [''No experience section to analyze''])),
        quantify_impact := (\<lambda>_. 0)\<rparr>"

definition bare_data :: parsed_data where
  "bare_data =
     \<lparr>skills = [], work_history = one_job_history, experience_text = [],
      contact_text = ''linkedin.com/in/x github.com/x'', experience_bullets = []\<rparr>"

definition perfect_layout_analysis :: analysis_result where
  \<comment> \<open>what the orchestrator returns for \<open>bare_data\<close>: the layout has 20 of 20 points\<close>
  "perfect_layout_analysis =
     \<lparr>final_score = 80, grade = ''B'',
      breakdown =
        [(''file_layout'', 20), (''font_consistency'', 10), (''readability'', 10),
         (''professional_language'', 10), (''date_consistency'', 5), (''employment_gaps'', 10),
         (''career_progression'', 5), (''keyword_alignment'', 15), (''skill_context'', 0),
         (''semantic_fit'', 20), (''quantified_impact'', 0), (''online_presence'', 5)],
      feedback = [''No skills listed'', ''No experience section to analyze''],
      total_checks = 12, skill_match_details = Some empty_skill_details\<rparr>"

definition fused_result :: enhanced_result where
  "fused_result =
     \<lparr>e_final_score = 79.2, e_grade = ''C'',
      e_breakdown =
        [(''file_layout'', 100), (''font_consistency'', 100), (''readability'', 100),
         (''professional_language'', 100), (''date_consistency'', 100), (''employment_gaps'', 100),
         (''career_progression'', 100), (''keyword_alignment'', 100), (''skill_context'', 0),
         (''semantic_fit'', 100), (''quantified_impact'', 0), (''online_presence'', 100)],
      e_feedback = [''No skills listed'', ''No experience section to analyze''],
      e_total_checks = 12\<rparr>"

definition promoted_result :: analysis_result where
  \<comment> \<open>what the orchestrator returns for \<open>promoted_history\<close>\<close>
  "promoted_result =
     \<lparr>final_score = 100, grade = ''A'',
      breakdown =
        [(''file_layout'', 20), (''font_consistency'', 10), (''readability'', 10),
         (''professional_language'', 10), (''date_consistency'', 5), (''employment_gaps'', 10),
         (''career_progression'', 7), (''keyword_alignment'', 15), (''skill_context'', 5),
         (''semantic_fit'', 20), (''quantified_impact'', 10), (''online_presence'', 5)],
      feedback = [''Career progression: 1 promotion(s) detected''],
      total_checks = 12, skill_match_details = Some empty_skill_details\<rparr>"


definition low_fit_result :: "real \<Rightarrow> real \<Rightarrow> string \<Rightarrow> analysis_result" where
  \<comment> \<open>the result for \<open>one_job_history\<close> under \<open>sample_env sem\<close> when the override applies\<close>
  "low_fit_result sem capped msg =
     \<lparr>final_score = capped, grade = ''F'',
      breakdown =
        [(''file_layout'', 20), (''font_consistency'', 10), (''readability'', 10),
         (''professional_language'', 10), (''date_consistency'', 5), (''employment_gaps'', 10),
         (''career_progression'', 5), (''keyword_alignment'', 15), (''skill_context'', 5),
         (''semantic_fit'', sem), (''quantified_impact'', 10), (''online_presence'', 5)],
      feedback = [msg], total_checks = 12,
      skill_match_details = Some empty_skill_details\<rparr>"

section \<open>Rounding to one decimal\<close>

lemma round_half_even_le: "x \<le> of_int n \<Longrightarrow> round_half_even x \<le> n"
proof -
  assume h: "x \<le> of_int n"
  have fl: "\<lfloor>x\<rfloor> \<le> n" using h by (simp add: floor_le_iff) 
  show ?thesis
  proof (cases "\<lfloor>x\<rfloor> = n")
    case True
    then have "x = of_int n" using h by linarith
    then show ?thesis by (simp add: round_half_even_def)
  next
    case False
    then have "\<lfloor>x\<rfloor> + 1 \<le> n" using fl by simp
    then show ?thesis using fl by (simp add: round_half_even_def Let_def)
  qed
qed



lemma round1_le: "x \<le> of_int n / 10 \<Longrightarrow> round1 x \<le> of_int n / 10"
  unfolding round1_def using round_half_even_le [of "x * 10" n] by simp



lemma round1_le_30: "x \<le> 30 \<Longrightarrow> round1 x \<le> 30"
  using round1_le [of x 300] by simp

lemma round1_le_50: "x \<le> 50 \<Longrightarrow> round1 x \<le> 50"
  using round1_le [of x 500] by simp




section \<open>What the orchestrator returns\<close>

lemma analyze_breakdown:
  assumes "analyze X p r jd pd = Inr res"
  shows "breakdown res =
     [(''file_layout'', fst (check_file_layout X p)),
      (''font_consistency'', fst (check_font_consistency X p)),
      (''readability'', fst (check_readability X r)),
      (''professional_language'', fst (check_professional_language X r (experience_bullets pd))),
      (''date_consistency'', fst (check_date_consistency X (work_history pd))),
      (''employment_gaps'', fst (projr (check_employment_gaps (dateutil_parse X) (clock X) (work_history pd)))),
      (''career_progression'',
         max (fst (check_career_progression (dateutil_parse X) (clock X) (work_history pd)))
             (detect_progression (work_history pd) / 20)),
      (''keyword_alignment'', fst (check_keyword_alignment (keyword_tfidf X) r (get_str jd))),
      (''skill_context'', fst (check_skill_context X (skills pd) (experience_text pd))),
      (''semantic_fit'', fst (check_semantic_fit (semantic_model X) r (get_str jd))),
      (''quantified_impact'',
         max (fst (check_quantified_achievements X (experience_text pd)))
             (quantify_impact X (experience_text pd) / 10)),
      (''online_presence'', fst (check_online_presence X (contact_text pd)))]"
  using assms unfolding analyze_def Let_def case_prod_beta dict_set_def
  by (auto split: sum.splits)

lemma analyze_final:
  assumes "analyze X p r jd pd = Inr res"
  shows "\<exists>fb. final_score res = round1 (fst (apply_mismatch_penalty jd (breakdown res) (calculate_weighted_score (breakdown res)) fb))
          \<and> grade res = calculate_grade (fst (apply_mismatch_penalty jd (breakdown res) (calculate_weighted_score (breakdown res)) fb))
          \<and> feedback res = snd (apply_mismatch_penalty jd (breakdown res) (calculate_weighted_score (breakdown res)) fb)"
  using assms unfolding analyze_def Let_def case_prod_beta
  by (auto split: sum.splits)


lemma semantic_fit_entry:
  assumes "analyze X p r jd pd = Inr res"
  shows "dict_get (breakdown res) ''semantic_fit'' 0 = fst (check_semantic_fit (semantic_model X) r (get_str jd))"
  unfolding analyze_breakdown [OF assms] by (simp add: dict_get_def)

lemma keyword_alignment_entry:
  assumes "analyze X p r jd pd = Inr res"
  shows "dict_get (breakdown res) ''keyword_alignment'' 0 = fst (check_keyword_alignment (keyword_tfidf X) r (get_str jd))"
  unfolding analyze_breakdown [OF assms] by (simp add: dict_get_def)

lemma grade_F: "s < 60 \<Longrightarrow> calculate_grade s = ''F''"
  by (simp add: calculate_grade_def)

text \<open>
  C2. Mismatch override: when a job description is present and the semantic-fit raw score
  (the entry of the breakdown, which is what \<open>check_semantic_fit\<close> returned) is below 4, the
  returned final score is the weighted score capped at 30 (rounded to one decimal), so at
  most 30, the grade is F, and the critical-mismatch message is the first feedback entry;
  when it is at least 4 and below 7, the final score is capped at 50 and the warning
  message is the first feedback entry.
\<close>

theorem mismatch_override:
  assumes "analyze X p r jd pd = Inr res" and "get_str jd \<noteq> []"
  shows "dict_get (breakdown res) ''semantic_fit'' 0 = fst (check_semantic_fit (semantic_model X) r (get_str jd))
       \<and> (dict_get (breakdown res) ''semantic_fit'' 0 < 4 \<longrightarrow>
            final_score res = round1 (min (calculate_weighted_score (breakdown res)) 30)
          \<and> final_score res \<le> 30 \<and> grade res = ''F''
          \<and> (\<exists>fb. feedback res = critical_message # fb))
       \<and> (4 \<le> dict_get (breakdown res) ''semantic_fit'' 0 \<and> dict_get (breakdown res) ''semantic_fit'' 0 < 7 \<longrightarrow>
            final_score res = round1 (min (calculate_weighted_score (breakdown res)) 50)
          \<and> final_score res \<le> 50
          \<and> (\<exists>fb. feedback res = warning_message # fb))"
proof -
  obtain fb where
    fs: "final_score res = round1 (fst (apply_mismatch_penalty jd (breakdown res) (calculate_weighted_score (breakdown res)) fb))"
    and gr: "grade res = calculate_grade (fst (apply_mismatch_penalty jd (breakdown res) (calculate_weighted_score (breakdown res)) fb))"
    and fd: "feedback res = snd (apply_mismatch_penalty jd (breakdown res) (calculate_weighted_score (breakdown res)) fb)"
    using analyze_final [OF assms(1)] by blast
  let ?s = "dict_get (breakdown res) ''semantic_fit'' 0"
  let ?w = "calculate_weighted_score (breakdown res)"
  have low: "final_score res = round1 (min ?w 30) \<and> final_score res \<le> 30 \<and> grade res = ''F''
             \<and> (\<exists>fb. feedback res = critical_message # fb)" if "?s < 4"
  proof -
    have p: "apply_mismatch_penalty jd (breakdown res) ?w fb = (min ?w 30, critical_message # fb)"
      using that assms(2) by (simp add: apply_mismatch_penalty_def)
    have "round1 (min ?w 30) \<le> 30" by (rule round1_le_30) simp
    moreover have "calculate_grade (min ?w 30) = ''F''" by (rule grade_F) simp
    ultimately show ?thesis using fs gr fd p by simp
  qed
  have mid: "final_score res = round1 (min ?w 50) \<and> final_score res \<le> 50
             \<and> (\<exists>fb. feedback res = warning_message # fb)" if "4 \<le> ?s" "?s < 7"
  proof -
    have p: "apply_mismatch_penalty jd (breakdown res) ?w fb = (min ?w 50, warning_message # fb)"
      using that assms(2) by (simp add: apply_mismatch_penalty_def)
    have "round1 (min ?w 50) \<le> 50" by (rule round1_le_50) simp
    then show ?thesis using fs fd p by simp
  qed
  show ?thesis using low mid semantic_fit_entry [OF assms(1)] by blast
qed

theorem mismatch_override_witness:
  "analyze (sample_env 2) ''cv.pdf'' ''Python developer'' (Some ''Need a nurse'') (sample_data one_job_history)
     = Inr (low_fit_result 2 30 critical_message)
   \<and> final_score (low_fit_result 2 30 critical_message) \<le> 30
   \<and> grade (low_fit_result 2 30 critical_message) = ''F''
   \<and> hd (feedback (low_fit_result 2 30 critical_message)) = critical_message
   \<and> analyze (sample_env 5) ''cv.pdf'' ''Python developer'' (Some ''Need a nurse'') (sample_data one_job_history)
     = Inr (low_fit_result 5 50 warning_message)
   \<and> final_score (low_fit_result 5 50 warning_message) \<le> 50
   \<and> hd (feedback (low_fit_result 5 50 warning_message)) = warning_message"
proof -
  have a: "analyze (sample_env 2) ''cv.pdf'' ''Python developer'' (Some ''Need a nurse'') (sample_data one_job_history)
     = Inr (low_fit_result 2 30 critical_message)"
    by code_simp
  have b: "analyze (sample_env 5) ''cv.pdf'' ''Python developer'' (Some ''Need a nurse'') (sample_data one_job_history)
     = Inr (low_fit_result 5 50 warning_message)"
    by code_simp
  have jd: "get_str (Some ''Need a nurse'') \<noteq> []" by (simp add: get_str_def)
  have sa: "dict_get (breakdown (low_fit_result 2 30 critical_message)) ''semantic_fit'' 0 < 4"
    by (simp add: low_fit_result_def dict_get_def)
  have sb: "4 \<le> dict_get (breakdown (low_fit_result 5 50 warning_message)) ''semantic_fit'' 0
          \<and> dict_get (breakdown (low_fit_result 5 50 warning_message)) ''semantic_fit'' 0 < 7"
    by (simp add: low_fit_result_def dict_get_def)
  from mismatch_override [OF a jd] sa
  have ra: "final_score (low_fit_result 2 30 critical_message) \<le> 30
          \<and> grade (low_fit_result 2 30 critical_message) = ''F''
          \<and> (\<exists>fb. feedback (low_fit_result 2 30 critical_message) = critical_message # fb)"
    by blast
  from mismatch_override [OF b jd] sb
  have rb: "final_score (low_fit_result 5 50 warning_message) \<le> 50
          \<and> (\<exists>fb. feedback (low_fit_result 5 50 warning_message) = warning_message # fb)"
    by blast
  from ra rb a b show ?thesis by auto
qed

text \<open>
  C4. With a non-empty resume text and an empty job description the semantic-fit check
  returns the full 20 points and no feedback; with an empty resume text it returns 0 (a
  value, no exception), whatever the job description and the embedding model are.
\<close>

theorem check_semantic_fit_guards:
  "(resume_text \<noteq> [] \<longrightarrow> check_semantic_fit B resume_text [] = (20, []))
   \<and> check_semantic_fit B [] jd_text = (0, [''Invalid resume text''])"
  by (simp add: check_semantic_fit_def)

theorem check_semantic_fit_guards_witness:
  "check_semantic_fit (\<lambda>_ _. None) ''Python developer'' [] = (20, [])
   \<and> check_semantic_fit (\<lambda>_ _. None) [] ''Need a nurse'' = (0, [''Invalid resume text''])"
  using check_semantic_fit_guards [of "''Python developer''" "\<lambda>_ _. None" "''Need a nurse''"]
  by simp

text \<open>
  C10. Keyword alignment gives the full 15 points, no feedback and empty skill details
  whenever the job description or the resume text is empty; so the breakdown of an
  analysis run without a job description (\<open>None\<close> or the empty string) has 15 for
  \<open>keyword_alignment\<close>.
\<close>

theorem check_keyword_alignment_no_jd:
  "(jd_text = [] \<or> resume_text = [] \<longrightarrow>
      check_keyword_alignment B resume_text jd_text = (15, [], empty_skill_details))
   \<and> (get_str jd = [] \<and> analyze X p r jd pd = Inr res \<longrightarrow>
      dict_get (breakdown res) ''keyword_alignment'' 0 = 15)"
proof -
  have a: "check_keyword_alignment B resume_text jd_text = (15, [], empty_skill_details)"
    if "jd_text = [] \<or> resume_text = []" for B resume_text jd_text
    using that by (auto simp add: check_keyword_alignment_def)
  have "dict_get (breakdown res) ''keyword_alignment'' 0 = 15"
    if "get_str jd = []" "analyze X p r jd pd = Inr res"
    using keyword_alignment_entry [OF that(2)] a [of "get_str jd" r "keyword_tfidf X"] that(1) by simp
  then show ?thesis using a by blast
qed

theorem check_keyword_alignment_no_jd_witness:
  "check_keyword_alignment (\<lambda>_ _. None) ''Python developer'' [] = (15, [], empty_skill_details)
   \<and> check_keyword_alignment (\<lambda>_ _. None) [] ''Need a nurse'' = (15, [], empty_skill_details)"
  using check_keyword_alignment_no_jd [of "[]" "''Python developer''" "\<lambda>_ _. None"]
        check_keyword_alignment_no_jd [of "''Need a nurse''" "[]" "\<lambda>_ _. None"]
  by simp


section \<open>Where the code departs from its documentation\<close>

text \<open>
  C1 (the code departs from the claim). Two jobs at one company with different titles,
  three years and more each: \<open>check_career_progression\<close> returns 5 + 2 = 7, the merge with
  the pattern-based variant keeps the larger value, and the breakdown of the analysis has
  7 for \<open>career_progression\<close>, above the 5 of the table of maximal points.
\<close>

theorem career_progression_exceeds_ceiling:
  "check_career_progression sample_dateutil sample_now promoted_history
     = (7, [''Career progression: 1 promotion(s) detected''])
   \<and> detect_progression promoted_history / 20 = 4
   \<and> analyze (sample_env 20) ''cv.pdf'' ''Python developer'' (Some ''Need Python'')
        (sample_data promoted_history) = Inr promoted_result
   \<and> dict_get (breakdown promoted_result) ''career_progression'' 0 = 7
   \<and> dict_get max_points ''career_progression'' 10 = 5"
proof -
  have a: "check_career_progression sample_dateutil sample_now promoted_history
     = (7, [''Career progression: 1 promotion(s) detected''])"
    by code_simp
  have b: "detect_progression promoted_history / 20 = 4"
    by code_simp
  have c: "analyze (sample_env 20) ''cv.pdf'' ''Python developer'' (Some ''Need Python'')
        (sample_data promoted_history) = Inr promoted_result"
    by code_simp
  have d: "dict_get (breakdown promoted_result) ''career_progression'' 0 = 7"
    by (simp add: promoted_result_def dict_get_def)
  have e: "dict_get max_points ''career_progression'' 10 = 5"
    by (simp add: max_points_def dict_get_def)
  from a b c d e show ?thesis by blast
qed

text \<open>
  C6 (the code departs from the claim). A history of two jobs whose first start date is
  text without a date: the sort key of that job is \<open>None\<close>, \<open>sorted\<close> raises \<open>TypeError\<close>,
  \<open>check_employment_gaps\<close> does not return and the analysis is aborted. The total-years
  computation does return on the same history: the job with the unparseable date adds 0.
\<close>

theorem unparseable_start_date_raises:
  "check_employment_gaps sample_dateutil sample_now unparseable_history = Inl TypeError
   \<and> analyze (sample_env 20) ''cv.pdf'' ''Python developer'' (Some ''Need Python'')
        (sample_data unparseable_history) = Inl TypeError
   \<and> calculate_total_months sample_dateutil sample_now unparseable_history = 51"
proof -
  have a: "check_employment_gaps sample_dateutil sample_now unparseable_history = Inl TypeError"
    by code_simp
  have b: "analyze (sample_env 20) ''cv.pdf'' ''Python developer'' (Some ''Need Python'')
        (sample_data unparseable_history) = Inl TypeError"
    by code_simp
  have c: "calculate_total_months sample_dateutil sample_now unparseable_history = 51"
    by code_simp
  from a b c show ?thesis by blast
qed

text \<open>
  C7 (the code departs from the claim). The orchestrator's result for a resume with a
  perfect layout (20 of 20, display score 100) and final score 80, fused with a model score
  of 80: the penalty is computed from the raw entry 20 of the breakdown, not from the
  display score, so 0.8 is subtracted and the fused result is 79.2 with grade C.
\<close>

theorem fusion_penalty_uses_raw_layout_score:
  "analyze bare_env ''cv.pdf'' ''Python developer'' (Some ''Need Python'') bare_data
     = Inr perfect_layout_analysis
   \<and> dict_get (normalize_scores (breakdown perfect_layout_analysis)) ''file_layout'' 0 = 100
   \<and> ml_fusion perfect_layout_analysis False (Some (80, ''Semantic similarity'')) = fused_result
   \<and> e_final_score fused_result = 79.2 \<and> e_grade fused_result = ''C''"
proof -
  have a: "analyze bare_env ''cv.pdf'' ''Python developer'' (Some ''Need Python'') bare_data
     = Inr perfect_layout_analysis"
    by code_simp
  have b: "dict_get (normalize_scores (breakdown perfect_layout_analysis)) ''file_layout'' 0 = 100"
    by code_simp
  have c: "ml_fusion perfect_layout_analysis False (Some (80, ''Semantic similarity'')) = fused_result"
    by code_simp
  have d: "e_final_score fused_result = 79.2 \<and> e_grade fused_result = ''C''"
    by (simp add: fused_result_def)
  from a b c d show ?thesis by blast
qed

text \<open>
  C8 (the code departs from the claim). Two jobs at one company with the same title, three
  years each: no company has more than one distinct title, yet the check counts a
  promotion (it counts the entries of a company, not its distinct titles) and returns
  5 + 2 = 7.
\<close>

theorem same_title_counts_as_promotion:
  "check_career_progression sample_dateutil sample_now same_title_history
     = (7, [''Career progression: 1 promotion(s) detected''])
   \<and> remdups (map title same_title_history) = [Some ''Engineer'']
   \<and> count_promotions same_title_history = 1"
proof -
  have a: "check_career_progression sample_dateutil sample_now same_title_history
     = (7, [''Career progression: 1 promotion(s) detected''])"
    by code_simp
  have b: "remdups (map title same_title_history) = [Some ''Engineer'']"
    by code_simp
  have c: "count_promotions same_title_history = 1"
    by code_simp
  from a b c show ?thesis by blast
qed


section \<open>Skill matching looks at normalised skills\<close>

lemma match_loop_sets:
  "match_loop M rn js (m, ms) = (m', ms') \<Longrightarrow>
     set m' = set m \<union> {j \<in> set js. is_match M (normalize_skill j) rn}
   \<and> ms' = ms @ filter (\<lambda>j. \<not> is_match M (normalize_skill j) rn) js"
proof (induction js arbitrary: m ms)
  case Nil
  then show ?case by simp
next
  case (Cons j js)
  show ?case
  proof (cases "is_match M (normalize_skill j) rn")
    case True
    with Cons.prems have "match_loop M rn js (List.insert j m, ms) = (m', ms')" by simp
    from Cons.IH [OF this] True show ?thesis by auto
  next
    case False
    with Cons.prems have "match_loop M rn js (m, ms @ [j]) = (m', ms')" by simp
    from Cons.IH [OF this] False show ?thesis by auto
  qed
qed

lemma match_skills_sets:
  "set (fst (match_skills M rs js)) = {j \<in> set js. is_match M (normalize_skill j) (map normalize_skill rs)}
   \<and> fst (snd (match_skills M rs js)) = filter (\<lambda>j. \<not> is_match M (normalize_skill j) (map normalize_skill rs)) js"
proof (cases "js = []")
  case True
  then show ?thesis by (simp add: match_skills_def)
next
  case False
  obtain m' ms' where r: "match_loop M (map normalize_skill rs) js ([], []) = (m', ms')"
    by (cases "match_loop M (map normalize_skill rs) js ([], [])") auto
  from match_loop_sets [OF r] False r show ?thesis
    by (simp add: match_skills_def)
qed

lemma is_match_exact: "j \<in> set rn \<Longrightarrow> is_match M j rn"
  by (simp add: is_match_def)

text \<open>
  C9. With an empty list of required skills \<open>match_skills\<close> returns 100 percent (and
  nothing matched or missing). Matching looks at a skill only through \<open>_normalize\<close>
  (lower case, surrounding whitespace stripped): the matched skills are the required skills
  whose normalised form matches the normalised resume skills, so a required skill that
  equals a resume skill up to case and surrounding whitespace is matched and not missing,
  whatever the knowledge base, thresholds and fuzzy ratio are.
\<close>

theorem match_skills_normalized:
  "match_skills M resume_skills [] = ([], [], 100)
   \<and> set (fst (match_skills M resume_skills jd_skills))
       = {j \<in> set jd_skills. is_match M (normalize_skill j) (map normalize_skill resume_skills)}
   \<and> (jd_skill \<in> set jd_skills \<and> resume_skill \<in> set resume_skills
        \<and> normalize_skill jd_skill = normalize_skill resume_skill \<longrightarrow>
          jd_skill \<in> set (fst (match_skills M resume_skills jd_skills))
        \<and> jd_skill \<notin> set (fst (snd (match_skills M resume_skills jd_skills))))"
proof -
  have a: "match_skills M resume_skills [] = ([], [], 100)"
    by (simp add: match_skills_def)
  have c: "jd_skill \<in> set (fst (match_skills M resume_skills jd_skills))
        \<and> jd_skill \<notin> set (fst (snd (match_skills M resume_skills jd_skills)))"
    if h: "jd_skill \<in> set jd_skills" "resume_skill \<in> set resume_skills"
          "normalize_skill jd_skill = normalize_skill resume_skill"
  proof -
    have "normalize_skill jd_skill \<in> set (map normalize_skill resume_skills)" using h(2,3) by auto
    then have "is_match M (normalize_skill jd_skill) (map normalize_skill resume_skills)"
      by (rule is_match_exact)
    then show ?thesis using h(1) match_skills_sets [of M resume_skills jd_skills] by simp
  qed
  from a c match_skills_sets [of M resume_skills jd_skills] show ?thesis by blast
qed

theorem match_skills_normalized_witness:
  "normalize_skill ''python'' = normalize_skill ''Python ''
   \<and> ''python'' \<in> set (fst (match_skills sample_matcher [''Python ''] [''python'']))
   \<and> ''python'' \<notin> set (fst (snd (match_skills sample_matcher [''Python ''] [''python''])))
   \<and> match_skills sample_matcher [''Python ''] [''python''] = ([''python''], [], 100)
   \<and> match_skills sample_matcher [''Python ''] [] = ([], [], 100)"
proof -
  have n: "normalize_skill ''python'' = normalize_skill ''Python ''" by code_simp
  have e: "match_skills sample_matcher [''Python ''] [''python''] = ([''python''], [], 100)"
    by code_simp
  have m1: "''python'' \<in> set [''python'']" by simp
  have m2: "''Python '' \<in> set [''Python '']" by simp
  from match_skills_normalized [of sample_matcher "[''Python '']" "[''python'']" "''python''" "''Python ''"] m1 m2 n
  have "''python'' \<in> set (fst (match_skills sample_matcher [''Python ''] [''python'']))
      \<and> ''python'' \<notin> set (fst (snd (match_skills sample_matcher [''Python ''] [''python''])))
      \<and> match_skills sample_matcher [''Python ''] [] = ([], [], 100)"
    by blast
  with n e show ?thesis by blast
qed


section \<open>Sorting by start date and the gap loop\<close>



lemma those_map_Some:
  "those (map g xs) = Some ks \<longleftrightarrow> list_all (\<lambda>x. g x \<noteq> None) xs \<and> ks = map (\<lambda>x. the (g x)) xs"
proof (induction xs arbitrary: ks)
  case Nil
  then show ?case by auto
next
  case (Cons x xs)
  show ?case
  proof (cases "g x")
    case None
    then show ?thesis by simp
  next
    case (Some y)
    show ?thesis
    proof (cases "those (map g xs)")
      case None
      then have "\<not> list_all (\<lambda>x. g x \<noteq> None) xs" using Cons.IH by auto
      then show ?thesis using Some None by simp
    next
      case (Some ys)
      then have "list_all (\<lambda>x. g x \<noteq> None) xs \<and> ys = map (\<lambda>x. the (g x)) xs"
        using Cons.IH by simp
      then show ?thesis using \<open>g x = Some y\<close> Some by auto
    qed
  qed
qed

lemma those_map_None:
  "those (map g xs) = None \<longleftrightarrow> \<not> list_all (\<lambda>x. g x \<noteq> None) xs"
proof (cases "those (map g xs)")
  case None
  then show ?thesis using those_map_Some [of g xs] by (metis option.distinct(1))
next
  case (Some ks)
  then show ?thesis using those_map_Some [of g xs ks] by simp
qed



lemma py_sorted_raises:
  assumes "2 \<le> length xs" and "\<not> list_all (\<lambda>x. g x \<noteq> None) xs"
  shows "py_sorted g xs = Inl TypeError"
  using assms those_map_None [of g xs] by (simp add: py_sorted_def)











section \<open>The weighted score, the grade and the returned score\<close>








end
